theory Spec2Isabelle
  imports Complex_Main
begin

section \<open>The lab bench of app.js\<close>

text \<open>
  A shallow embedding of the bench interaction and the simulated-effect model of
  \<^verbatim>\<open>src/app.js\<close>. JavaScript numbers are modelled as exact reals: every
  statement below is about the formulas of the program, not about the rounding of IEEE
  doubles. Strict equality \<^verbatim>\<open>===\<close> on strings is equality of \<open>string\<close>.
\<close>

subsection \<open>Data\<close>

text \<open>
  The two exceptions the modelled code can raise. \<^verbatim>\<open>app.js\<close> opens with static
  \<^verbatim>\<open>import\<close> declarations, so it is an ES module and all of it runs in strict mode:
  an assignment to an identifier that resolves to no binding raises ReferenceError.
  Reading a property of \<^verbatim>\<open>undefined\<close> raises TypeError.
\<close>

datatype error = ReferenceError | TypeError

text \<open>One record of a molecule's \<^verbatim>\<open>targets\<close> array.\<close>

record target =
  receptor :: string
  affinity :: real

text \<open>
  A record of \<^verbatim>\<open>molecules.json\<close>. The code guards \<^verbatim>\<open>color\<close>,
  \<^verbatim>\<open>safety\<close> and \<^verbatim>\<open>targets\<close> against being absent, so they are optional here
  (\<open>None\<close> is \<^verbatim>\<open>undefined\<close>). The field \<^verbatim>\<open>id\<close> is \<open>molecule_id\<close>.
\<close>

record molecule =
  molecule_id :: string
  name :: string
  formula :: string
  color :: "string option"
  safety :: "string option"
  targets :: "target list option"

record brainwaves =
  delta :: real
  theta :: real
  alpha :: real
  beta :: real

text \<open>The object \<^verbatim>\<open>{activation, brainwave, mood, safety, receptor}\<close> of line 27.\<close>

record effect =
  activation :: real
  brainwave :: brainwaves
  mood :: string
  safety :: string
  receptor :: string

text \<open>
  The five values that the five calls of \<^verbatim>\<open>Math.random()\<close> in
  \<^verbatim>\<open>getSimulatedEffects\<close> return, in call order: \<open>d0\<close> on line 17, \<open>d1\<close> to
  \<open>d4\<close> on lines 20 to 23.
\<close>

record draws =
  d0 :: real
  d1 :: real
  d2 :: real
  d3 :: real
  d4 :: real

text \<open>The components of a \<^verbatim>\<open>THREE.Color\<close> and of a \<^verbatim>\<open>THREE.Vector3\<close>.\<close>

type_synonym rgb = "real \<times> real \<times> real"

type_synonym vec3 = "real \<times> real \<times> real"

text \<open>
  An element of \<^verbatim>\<open>beakers\<close> (line 115): \<open>liquid\<close> is
  \<^verbatim>\<open>liquid.material.color\<close>. The glass mesh is never changed and is left out.
\<close>

record beaker =
  liquid :: rgb
  position :: vec3
  contents :: "molecule list"

text \<open>
  What the program hands to its rendering, chart and DOM collaborators:
  \<^item> \<open>SceneAdd c e p\<close>: \<^verbatim>\<open>scene.add(sphere)\<close> of line 182, a sphere of colour
    \<open>c\<close>, emissive colour \<open>e\<close>, at position \<open>p\<close>;
  \<^item> \<open>SummaryPlaced n\<close>: the text of line 293, with the total \<open>n\<close>;
  \<^item> \<open>ConnectionResult m s\<close>: \<^verbatim>\<open>displayConnectionResult(m, s)\<close>.
\<close>

datatype emission =
  SceneAdd string string vec3
| SummaryPlaced nat
| ConnectionResult molecule effect

text \<open>
  The state of the page: the catalog \<^verbatim>\<open>molecules\<close>, the array \<^verbatim>\<open>beakers\<close>,
  what has been emitted so far, and \<open>global_constAffinity\<close>: the property
  \<^verbatim>\<open>constAffinity\<close> of the global object, \<open>None\<close> when the global object has no
  such property. Neither \<^verbatim>\<open>getSimulatedEffects\<close> nor the module declares an
  identifier \<^verbatim>\<open>constAffinity\<close>, so the global object is the only place where the
  identifier can resolve, and nothing in \<^verbatim>\<open>app.js\<close> creates the property.
\<close>

record app =
  molecules :: "molecule list"
  beakers :: "beaker list"
  sink :: "emission list"
  global_constAffinity :: "real option"

text \<open>The \<^verbatim>\<open>drop\<close> event as the handler reads it (lines 154, 159 and 160).\<close>

record drop_event =
  payload :: string
  clientX :: real
  rect_left :: real
  rect_width :: real

subsection \<open>JavaScript operators\<close>

text \<open>\<^verbatim>\<open>v || d\<close> on a string that may be undefined: undefined and the empty string are falsy.\<close>

definition str_or :: "string option \<Rightarrow> string \<Rightarrow> string" where
  "str_or v d = (case v of None \<Rightarrow> d | Some s \<Rightarrow> if s = [] then d else s)"

text \<open>\<^verbatim>\<open>v || d\<close> on a number that may be undefined: undefined and zero are falsy.\<close>

definition num_or :: "real option \<Rightarrow> real \<Rightarrow> real" where
  "num_or v d = (case v of None \<Rightarrow> d | Some a \<Rightarrow> if a = 0 then d else a)"

text \<open>\<^verbatim>\<open>Math.round\<close>: the nearest integer, a tie going up.\<close>

definition Math_round :: "real \<Rightarrow> int" where
  "Math_round y = \<lfloor>y + 1 / 2\<rfloor>"

subsection \<open>The simulated effect (lines 13 to 28)\<close>

text \<open>
  \<^verbatim>\<open>molecule.targets?.find(t=>t.receptor===receptor)?.affinity\<close>, the left operand
  of \<^verbatim>\<open>||\<close> on line 16: \<open>None\<close> is \<^verbatim>\<open>undefined\<close>.
\<close>

definition lookupAffinity :: "molecule \<Rightarrow> string \<Rightarrow> real option" where
  "lookupAffinity molecule receptor =
     (case targets molecule of
        None \<Rightarrow> None
      | Some ts \<Rightarrow>
          (case find (\<lambda>t. target.receptor t = receptor) ts of
             None \<Rightarrow> None
           | Some t \<Rightarrow> Some (affinity t)))"
  for molecule receptor

text \<open>
  \<^verbatim>\<open>getSimulatedEffects(molecule, receptor)\<close>, given the property
  \<^verbatim>\<open>constAffinity\<close> of the global object (\<open>g\<close>) and the five random draws. Line 16
  is the assignment \<^verbatim>\<open>constAffinity = (...) || 0.05\<close>: its right-hand side is evaluated
  first, then the value is stored through the identifier, which raises ReferenceError when
  the identifier resolves to nothing and writes the global property otherwise. Line 17
  reads the identifier back. The result is the returned object and the global property
  after the call.
\<close>

definition getSimulatedEffects ::
  "real option \<Rightarrow> draws \<Rightarrow> molecule \<Rightarrow> string \<Rightarrow> error + (effect \<times> real option)" where
  "getSimulatedEffects g rnd molecule receptor =
     (let v = num_or (lookupAffinity molecule receptor) 0.05 in
      case g of
        None \<Rightarrow> Inl ReferenceError
      | Some _ \<Rightarrow>
          (let constAffinity = v;
               activation = min 1 (constAffinity * (0.8 + d0 rnd * 0.6));
               brainwave = \<lparr>delta = max 0 (0.1 + (activation * 0.1) * d1 rnd),
                            theta = max 0 (0.1 + (activation * 0.08) * d2 rnd),
                            alpha = max 0 (0.2 + (activation * 0.12) * d3 rnd),
                            beta = max 0 (0.15 + (activation * 0.09) * d4 rnd)\<rparr>;
               mood = (if activation > 0.4 then ''elevated'' else ''neutral'');
               safety = str_or (molecule.safety molecule) ''yellow''
           in Inr (\<lparr>activation = activation, brainwave = brainwave, mood = mood,
                     safety = safety, receptor = receptor\<rparr>, Some constAffinity)))"
  for molecule receptor

subsection \<open>The bench (lines 149 to 195 and 291 to 294)\<close>

text \<open>
  Modelled from the spec: \<^verbatim>\<open>THREE.Color.lerp\<close> belongs to the three.js library, which
  the repository imports and does not contain. The spec calls it linear interpolation in
  colour space, a step of \<open>t\<close> from the first colour toward the second.
\<close>

definition lerp :: "rgb \<Rightarrow> rgb \<Rightarrow> real \<Rightarrow> rgb" where
  "lerp c d t =
     (case c of (r, g, b) \<Rightarrow>
        (case d of (r', g', b') \<Rightarrow>
           (r + (r' - r) * t, g + (g' - g) * t, b + (b' - b) * t)))"

text \<open>
  The loop of lines 100 to 116: three beakers at \<open>x = -4, 0, 4\<close>, empty, their liquid of
  the colour \<open>c\<close> that the library makes of \<^verbatim>\<open>0x66c2ff\<close>.
\<close>

definition initThreeScene_beakers :: "rgb \<Rightarrow> beaker list" where
  "initThreeScene_beakers c =
     map (\<lambda>i. \<lparr>liquid = c, position = (- 4 + real i * 4, 0.8, 0), contents = []\<rparr>) [0..<3]"

text \<open>\<^verbatim>\<open>updateSummary()\<close>: the \<^verbatim>\<open>reduce\<close> of line 292 is a left fold.\<close>

definition updateSummary :: "app \<Rightarrow> app" where
  "updateSummary st =
     (let total = foldl (\<lambda>acc b. acc + length (contents b)) 0 (beakers st)
      in st\<lparr>sink := sink st @ [SummaryPlaced total]\<rparr>)"

text \<open>
  \<^verbatim>\<open>addMoleculeToBeaker(mol, beakers[idx])\<close>. The beaker is passed by reference, so
  the model takes its index; an index outside the array makes \<^verbatim>\<open>beakers[idx]\<close>
  undefined and line 168 raise TypeError. \<open>Color\<close> is the constructor
  \<^verbatim>\<open>new THREE.Color(string)\<close> of the library, a parameter of the model.
  The float animation of lines 185 to 192 only moves the sphere on screen and is left out.
\<close>

definition addMoleculeToBeaker ::
  "(string \<Rightarrow> rgb) \<Rightarrow> molecule \<Rightarrow> int \<Rightarrow> app \<Rightarrow> error + app" where
  "addMoleculeToBeaker Color mol idx st =
     (if idx < 0 \<or> int (length (beakers st)) \<le> idx then Inl TypeError
      else
        (let i = nat idx;
             b = beakers st ! i;
             pushed = contents b @ [mol];
             add = Color (str_or (color mol) ''#66c2ff'');
             blended = lerp (liquid b) add 0.2;
             b' = b\<lparr>contents := pushed, liquid := blended\<rparr>;
             pos = (case position b of
                      (px, py, pz) \<Rightarrow> (px, py + (1.6 + real (length pushed) * 0.2), pz));
             sphere = SceneAdd (str_or (color mol) ''#f2f2f2'')
                               (str_or (color mol) ''#303030'') pos
         in Inr (updateSummary
                   (st\<lparr>beakers := (beakers st)[i := b'],
                       sink := sink st @ [sphere]\<rparr>))))"

text \<open>Line 160: the horizontal drop coordinate, normalised over the canvas.\<close>

definition normalizedX :: "drop_event \<Rightarrow> real" where
  "normalizedX ev = (clientX ev - rect_left ev) / rect_width ev * 2 - 1"

text \<open>
  Line 162, the beaker index for a normalised coordinate \<open>x\<close>, with \<open>n\<close> the value of
  \<^verbatim>\<open>beakers.length\<close>.
\<close>

definition resolveDropTarget :: "real \<Rightarrow> int \<Rightarrow> int" where
  "resolveDropTarget x n = min (max (Math_round ((x + 1) * 1.5)) 0) (n - 1)"

text \<open>
  The index of lines 160 to 162 for an event. A canvas of width zero makes the division
  of line 160 yield an infinity or NaN instead of a real: \<^verbatim>\<open>+Infinity\<close> passes
  \<^verbatim>\<open>Math.round\<close> and \<^verbatim>\<open>Math.max\<close> and is cut to \<open>n - 1\<close>,
  \<^verbatim>\<open>-Infinity\<close> is raised to 0 and then cut, and NaN stays NaN, which indexes
  nothing (\<open>None\<close>).
\<close>

definition dropIndex :: "drop_event \<Rightarrow> int \<Rightarrow> int option" where
  "dropIndex ev n =
     (if rect_width ev = 0 then
        (if clientX ev - rect_left ev > 0 then Some (n - 1)
         else if clientX ev - rect_left ev < 0 then Some (min 0 (n - 1))
         else None)
      else Some (resolveDropTarget (normalizedX ev) n))"

text \<open>The \<^verbatim>\<open>drop\<close> listener of lines 152 to 164.\<close>

definition drop_listener :: "(string \<Rightarrow> rgb) \<Rightarrow> app \<Rightarrow> drop_event \<Rightarrow> error + app" where
  "drop_listener Color st ev =
     (let ident = payload ev in
      if ident = [] then Inr st
      else
        (case find (\<lambda>m. molecule_id m = ident) (molecules st) of
           None \<Rightarrow> Inr st
         | Some mol \<Rightarrow>
             (case dropIndex ev (int (length (beakers st))) of
                None \<Rightarrow> Inl TypeError
              | Some idx \<Rightarrow> addMoleculeToBeaker Color mol idx st)))"

text \<open>
  The formula the specification gives for the same index: nearest of \<open>n\<close> beakers by
  \<open>round((x+1) * (n-1)/2)\<close>, clamped to \<open>[0, n-1]\<close>.
\<close>

definition resolveDropTarget_spec :: "real \<Rightarrow> int \<Rightarrow> int" where
  "resolveDropTarget_spec x n =
     min (max (Math_round ((x + 1) * (real_of_int n - 1) / 2)) 0) (n - 1)"

subsection \<open>Connecting a molecule to a receptor (lines 247 to 288)\<close>

text \<open>
  \<^verbatim>\<open>displayConnectionResult(mol, sim)\<close> writes the info panel, the hologram, the
  chart, the summary and the warnings from its two arguments: one emission.
\<close>

definition displayConnectionResult :: "molecule \<Rightarrow> effect \<Rightarrow> app \<Rightarrow> app" where
  "displayConnectionResult mol sim st = st\<lparr>sink := sink st @ [ConnectionResult mol sim]\<rparr>"

text \<open>Line 250: the receptor name for what the user typed.\<close>

definition receptorName :: "string \<Rightarrow> string" where
  "receptorName receptor =
     (if receptor = ''1'' then ''5-HT2A''
      else if receptor = ''2'' then ''D2''
      else if receptor = ''3'' then ''GABA-A''
      else receptor)"
  for receptor

text \<open>
  \<^verbatim>\<open>showReceptorDialog(mol)\<close>, with the value of \<^verbatim>\<open>prompt(...)\<close> as
  \<open>receptor\<close>: \<open>None\<close> is \<^verbatim>\<open>null\<close>, what a cancelled prompt returns.
\<close>

definition showReceptorDialog ::
  "app \<Rightarrow> draws \<Rightarrow> molecule \<Rightarrow> string option \<Rightarrow> error + app" where
  "showReceptorDialog st rnd mol receptor =
     (case receptor of
        None \<Rightarrow> Inr st
      | Some typed \<Rightarrow>
          if typed = [] then Inr st
          else
            (let name = receptorName typed in
             case getSimulatedEffects (global_constAffinity st) rnd mol name of
               Inl e \<Rightarrow> Inl e
             | Inr (sim, g') \<Rightarrow>
                 Inr (displayConnectionResult mol sim (st\<lparr>global_constAffinity := g'\<rparr>))))"
  for receptor

subsection \<open>The events of a session\<close>





section \<open>Properties\<close>

subsection \<open>Helper facts about the simulated effect\<close>

lemma getSimulatedEffects_unbound:
  "getSimulatedEffects None rnd m r = Inl ReferenceError"
  by (simp add: getSimulatedEffects_def)

lemma getSimulatedEffects_bound:
  "getSimulatedEffects (Some g0) rnd m r =
     (let a = num_or (lookupAffinity m r) 0.05;
          act = min 1 (a * (0.8 + d0 rnd * 0.6))
      in Inr (\<lparr>activation = act,
                brainwave = \<lparr>delta = max 0 (0.1 + (act * 0.1) * d1 rnd),
                              theta = max 0 (0.1 + (act * 0.08) * d2 rnd),
                              alpha = max 0 (0.2 + (act * 0.12) * d3 rnd),
                              beta = max 0 (0.15 + (act * 0.09) * d4 rnd)\<rparr>,
                mood = (if act > 0.4 then ''elevated'' else ''neutral''),
                safety = str_or (molecule.safety m) ''yellow'',
                receptor = r\<rparr>, Some a))"
  by (simp add: getSimulatedEffects_def Let_def)

lemma getSimulatedEffects_returns:
  assumes "getSimulatedEffects g rnd m r = Inr (sim, g')"
  shows "g \<noteq> None"
    and "g' = Some (num_or (lookupAffinity m r) 0.05)"
    and "activation sim = min 1 (num_or (lookupAffinity m r) 0.05 * (0.8 + d0 rnd * 0.6))"
    and "delta (brainwave sim) = max 0 (0.1 + (activation sim * 0.1) * d1 rnd)"
    and "theta (brainwave sim) = max 0 (0.1 + (activation sim * 0.08) * d2 rnd)"
    and "alpha (brainwave sim) = max 0 (0.2 + (activation sim * 0.12) * d3 rnd)"
    and "beta (brainwave sim) = max 0 (0.15 + (activation sim * 0.09) * d4 rnd)"
    and "mood sim = (if activation sim > 0.4 then ''elevated'' else ''neutral'')"
    and "safety sim = str_or (molecule.safety m) ''yellow''"
    and "receptor sim = r"
proof -
  show bound: "g \<noteq> None"
  proof
    assume "g = None"
    then show False using assms by (simp add: getSimulatedEffects_unbound)
  qed
  then obtain g0 where "g = Some g0" by blast
  then have eq: "getSimulatedEffects (Some g0) rnd m r = Inr (sim, g')"
    using assms by simp
  have sim: "sim = fst (projr (getSimulatedEffects (Some g0) rnd m r))"
    and g': "g' = snd (projr (getSimulatedEffects (Some g0) rnd m r))"
    by (simp_all add: eq)
  show "g' = Some (num_or (lookupAffinity m r) 0.05)"
    unfolding g' getSimulatedEffects_bound Let_def by simp
  show act: "activation sim = min 1 (num_or (lookupAffinity m r) 0.05 * (0.8 + d0 rnd * 0.6))"
    unfolding sim getSimulatedEffects_bound Let_def by simp
  show "delta (brainwave sim) = max 0 (0.1 + (activation sim * 0.1) * d1 rnd)"
    unfolding act unfolding sim getSimulatedEffects_bound Let_def by simp
  show "theta (brainwave sim) = max 0 (0.1 + (activation sim * 0.08) * d2 rnd)"
    unfolding act unfolding sim getSimulatedEffects_bound Let_def by simp
  show "alpha (brainwave sim) = max 0 (0.2 + (activation sim * 0.12) * d3 rnd)"
    unfolding act unfolding sim getSimulatedEffects_bound Let_def by simp
  show "beta (brainwave sim) = max 0 (0.15 + (activation sim * 0.09) * d4 rnd)"
    unfolding act unfolding sim getSimulatedEffects_bound Let_def by simp
  show "mood sim = (if activation sim > 0.4 then ''elevated'' else ''neutral'')"
    unfolding act unfolding sim getSimulatedEffects_bound Let_def by simp
  show "safety sim = str_or (molecule.safety m) ''yellow''"
    unfolding sim getSimulatedEffects_bound Let_def by simp
  show "receptor sim = r"
    unfolding sim getSimulatedEffects_bound Let_def by simp
qed

lemma lookupAffinity_first_match:
  assumes "targets m = Some (pre @ t # post)"
    and "\<forall>p \<in> set pre. target.receptor p \<noteq> r"
    and "target.receptor t = r"
  shows "lookupAffinity m r = Some (affinity t)"
proof -
  have "find (\<lambda>t. target.receptor t = r) (pre @ t # post) = Some t"
    using assms(2,3) by (induction pre) auto
  then show ?thesis using assms(1) by (simp add: lookupAffinity_def)
qed

lemma lookupAffinity_absent:
  assumes "targets m = None \<or> (\<exists>ts. targets m = Some ts \<and> r \<notin> target.receptor ` set ts)"
  shows "lookupAffinity m r = None"
proof -
  have "find (\<lambda>t. target.receptor t = r) ts = None"
    if "r \<notin> target.receptor ` set ts" for ts :: "target list"
    using that by (auto simp: find_None_iff)
  then show ?thesis using assms by (auto simp: lookupAffinity_def)
qed

lemma draw_range:
  fixes u :: real
  assumes "0 \<le> u" "u < 1"
  shows "0.8 \<le> 0.8 + u * 0.6" and "0.8 + u * 0.6 < 1.4"
  using assms by simp_all

lemma default_activation:
  fixes u :: real
  assumes "0 \<le> u" "u < 1"
  shows "min 1 (0.05 * (0.8 + u * 0.6)) = 0.05 * (0.8 + u * 0.6)"
    and "0.04 \<le> 0.05 * (0.8 + u * 0.6)" and "0.05 * (0.8 + u * 0.6) < 0.07"
  using assms by simp_all

lemma activation_range:
  fixes a u :: real
  assumes "0 \<le> a" "0 \<le> u"
  shows "0 \<le> min 1 (a * (0.8 + u * 0.6))" and "min 1 (a * (0.8 + u * 0.6)) \<le> 1"
  using assms by simp_all

lemma component_at_least_base:
  fixes act s u b :: real
  assumes "0 \<le> act" "0 \<le> s" "0 \<le> u" "0 \<le> b"
  shows "max 0 (b + (act * s) * u) = b + (act * s) * u" and "b \<le> max 0 (b + (act * s) * u)"
proof -
  have "0 \<le> (act * s) * u" using assms by simp
  then show "max 0 (b + (act * s) * u) = b + (act * s) * u" "b \<le> max 0 (b + (act * s) * u)"
    using assms(4) by simp_all
qed

subsection \<open>Helper facts about the bench\<close>

lemma resolveDropTarget_left: "1 \<le> n \<Longrightarrow> resolveDropTarget (- 1) n = 0"
  by (simp add: resolveDropTarget_def Math_round_def)


text \<open>
  Line 162 on the bench of three beakers: the left sixth of the canvas goes to beaker 0,
  the next third to beaker 1, and the whole right half to beaker 2.
\<close>

lemma resolveDropTarget_three:
  assumes "- 1 \<le> x" and "x \<le> 1"
  shows "resolveDropTarget x 3 = (if x < - 2 / 3 then 0 else if x < 0 then 1 else 2)"
proof -
  have "Math_round ((x + 1) * 1.5) = 0" if "x < - 2 / 3"
  proof -
    have "0 \<le> (x + 1) * 1.5 + 1 / 2" "(x + 1) * 1.5 + 1 / 2 < 1"
      using that assms by (simp_all add: field_simps)
    then show ?thesis unfolding Math_round_def by (intro floor_unique) simp_all
  qed
  moreover have "Math_round ((x + 1) * 1.5) = 1" if "\<not> x < - 2 / 3" "x < 0"
  proof -
    have "1 \<le> (x + 1) * 1.5 + 1 / 2" "(x + 1) * 1.5 + 1 / 2 < 2"
      using that assms by (simp_all add: field_simps)
    then show ?thesis unfolding Math_round_def by (intro floor_unique) simp_all
  qed
  moreover have "2 \<le> Math_round ((x + 1) * 1.5)" if "\<not> x < 0"
  proof -
    have "2 \<le> (x + 1) * 1.5 + 1 / 2"
      using that assms by (simp add: field_simps)
    then show ?thesis unfolding Math_round_def by (simp add: le_floor_iff)
  qed
  ultimately show ?thesis
    by (auto simp: resolveDropTarget_def)
qed

lemma updateSummary_beakers: "beakers (updateSummary st) = beakers st"
  by (simp add: updateSummary_def Let_def)



lemma initThreeScene_beakers_eq:
  "initThreeScene_beakers c =
     [\<lparr>liquid = c, position = (- 4, 0.8, 0), contents = []\<rparr>,
      \<lparr>liquid = c, position = (0, 0.8, 0), contents = []\<rparr>,
      \<lparr>liquid = c, position = (4, 0.8, 0), contents = []\<rparr>]"
  by (simp add: initThreeScene_beakers_def upt_conv_Cons)

lemma addMoleculeToBeaker_in_range:
  assumes "0 \<le> idx" and "idx < int (length (beakers st))"
  shows "\<exists>st'. addMoleculeToBeaker Color m idx st = Inr st'
           \<and> contents (beakers st' ! nat idx) = contents (beakers st ! nat idx) @ [m]
           \<and> liquid (beakers st' ! nat idx)
               = lerp (liquid (beakers st ! nat idx)) (Color (str_or (color m) ''#66c2ff'')) 0.2"
  using assms by (simp add: addMoleculeToBeaker_def Let_def updateSummary_beakers)

lemma str_or_present: "s \<noteq> [] \<Longrightarrow> str_or (Some s) d = s"
  by (simp add: str_or_def)

lemma dropIndex_left_edge:
  assumes "rect_width ev \<noteq> 0" and "normalizedX ev = - 1" and "1 \<le> n"
  shows "dropIndex ev n = Some 0"
  using assms by (simp add: dropIndex_def resolveDropTarget_left)

lemma find_molecule_None:
  "ident \<notin> molecule_id ` set ms \<Longrightarrow> find (\<lambda>m. molecule_id m = ident) ms = None"
  by (auto simp: find_None_iff)






text \<open>
  A flow that goes past its guards never ends in the state it started from: it raises, or
  the sink has grown. So a result \<open>Inr st\<close> on the state \<open>st\<close> says that nothing was
  computed, mutated or emitted.
\<close>

lemma drop_listener_proceeds:
  assumes "payload ev \<noteq> []"
    and "find (\<lambda>m. molecule_id m = payload ev) (molecules st) = Some mol"
  shows "drop_listener Color st ev \<noteq> Inr st"
proof (cases "dropIndex ev (int (length (beakers st)))")
  case None
  then show ?thesis using assms by (simp add: drop_listener_def Let_def)
next
  case (Some idx)
  then have d: "drop_listener Color st ev = addMoleculeToBeaker Color mol idx st"
    using assms by (simp add: drop_listener_def Let_def)
  show ?thesis unfolding d
    by (auto simp: addMoleculeToBeaker_def updateSummary_def Let_def
        dest!: arg_cong [where f = sink])
qed

lemma showReceptorDialog_proceeds:
  assumes "answer = Some typed" and "typed \<noteq> []"
  shows "showReceptorDialog st rnd mol answer \<noteq> Inr st"
proof (cases "global_constAffinity st")
  case None
  then show ?thesis using assms
    by (simp add: showReceptorDialog_def getSimulatedEffects_unbound Let_def)
next
  case (Some g0)
  then show ?thesis using assms
    by (auto simp: showReceptorDialog_def getSimulatedEffects_bound Let_def
        displayConnectionResult_def dest!: arg_cong [where f = sink])
qed

subsection \<open>The drop index\<close>

text \<open>
  C1. The specification's index is \<open>round((x+1) * (n-1)/2)\<close> clamped to \<open>[0, n-1]\<close>, and
  the comment of line 158 announces the nearest beaker. With the three beakers of the
  bench, a drop at the centre of the canvas (\<open>x = 0\<close>, where the middle beaker stands) is
  resolved by line 162 to index 2, the right-hand beaker: the factor there is 1.5, so the
  rounded value is \<open>round(1.5) = 2\<close>. The specification's formula gives \<open>round(1) = 1\<close>.
\<close>

theorem resolveDropTarget_centre:
  "resolveDropTarget 0 3 = 2 \<and> resolveDropTarget_spec 0 3 = 1"
  by (simp add: resolveDropTarget_def resolveDropTarget_spec_def Math_round_def)


subsection \<open>Adding to a beaker\<close>

text \<open>
  C4. For a beaker of the bench (an index within \<^verbatim>\<open>beakers\<close>) and a molecule \<open>m\<close> with
  a colour \<open>c\<close>, \<^verbatim>\<open>addMoleculeToBeaker\<close> appends \<open>m\<close> to the beaker's contents and sets
  its liquid colour to \<open>lerp(current, c, 0.2)\<close>, one step per call. In particular, with
  three beakers, dropping a catalogued molecule of colour \<^verbatim>\<open>#ff0000\<close> at normalised
  \<open>x = -1\<close> appends it to beaker 0, whose liquid colour becomes
  \<open>lerp(current, #ff0000, 0.2)\<close>. (A molecule without a colour, which the specification's
  data model does not have, is blended as \<^verbatim>\<open>#66c2ff\<close>: see
  \<open>addMoleculeToBeaker_in_range\<close>.)
\<close>

theorem addMoleculeToBeaker_blend:
  "(0 \<le> idx \<and> idx < int (length (beakers st)) \<and> color m = Some c \<and> c \<noteq> []
      \<longrightarrow> (\<exists>st'. addMoleculeToBeaker Color m idx st = Inr st'
             \<and> contents (beakers st' ! nat idx) = contents (beakers st ! nat idx) @ [m]
             \<and> liquid (beakers st' ! nat idx)
                 = lerp (liquid (beakers st ! nat idx)) (Color c) 0.2))
   \<and> (length (beakers st) = 3 \<and> payload ev \<noteq> []
        \<and> find (\<lambda>m. molecule_id m = payload ev) (molecules st) = Some m
        \<and> color m = Some ''#ff0000'' \<and> rect_width ev \<noteq> 0 \<and> normalizedX ev = - 1
      \<longrightarrow> (\<exists>st'. drop_listener Color st ev = Inr st'
             \<and> contents (beakers st' ! 0) = contents (beakers st ! 0) @ [m]
             \<and> liquid (beakers st' ! 0)
                 = lerp (liquid (beakers st ! 0)) (Color ''#ff0000'') 0.2))"
proof (intro conjI impI)
  assume h: "0 \<le> idx \<and> idx < int (length (beakers st)) \<and> color m = Some c \<and> c \<noteq> []"
  then have "str_or (color m) ''#66c2ff'' = c" by (simp add: str_or_present)
  then show "\<exists>st'. addMoleculeToBeaker Color m idx st = Inr st'
             \<and> contents (beakers st' ! nat idx) = contents (beakers st ! nat idx) @ [m]
             \<and> liquid (beakers st' ! nat idx)
                 = lerp (liquid (beakers st ! nat idx)) (Color c) 0.2"
    using addMoleculeToBeaker_in_range [of idx st Color m] h by simp
next
  assume h: "length (beakers st) = 3 \<and> payload ev \<noteq> []
        \<and> find (\<lambda>m. molecule_id m = payload ev) (molecules st) = Some m
        \<and> color m = Some ''#ff0000'' \<and> rect_width ev \<noteq> 0 \<and> normalizedX ev = - 1"
  then have idx: "dropIndex ev (int (length (beakers st))) = Some 0"
    using dropIndex_left_edge [of ev 3] by simp
  have c: "str_or (color m) ''#66c2ff'' = ''#ff0000''"
    using h by (simp add: str_or_present)
  have d: "drop_listener Color st ev = addMoleculeToBeaker Color m 0 st"
    using h idx by (simp add: drop_listener_def Let_def)
  show "\<exists>st'. drop_listener Color st ev = Inr st'
             \<and> contents (beakers st' ! 0) = contents (beakers st ! 0) @ [m]
             \<and> liquid (beakers st' ! 0)
                 = lerp (liquid (beakers st ! 0)) (Color ''#ff0000'') 0.2"
    using addMoleculeToBeaker_in_range [of 0 st Color m] h c d by simp
qed

text \<open>
  C4 on the bench as the program builds it, with liquid of colour \<open>(2/5, 19/25, 1)\<close>, red
  as \<open>(1, 0, 0)\<close>, and a drop at the left edge of the canvas.
\<close>

theorem addMoleculeToBeaker_blend_witness:
  "\<exists>st'. drop_listener (\<lambda>s. if s = ''#ff0000'' then (1, 0, 0) else (0, 0, 0))
         \<lparr>molecules = [\<lparr>molecule_id = ''m1'', name = ''Mock'', formula = ''C2H6'',
                         color = Some ''#ff0000'', molecule.safety = None, targets = None\<rparr>],
          beakers = initThreeScene_beakers (2/5, 19/25, 1),
          sink = [], global_constAffinity = None\<rparr>
         \<lparr>payload = ''m1'', clientX = 10, rect_left = 10, rect_width = 800\<rparr> = Inr st'
     \<and> contents (beakers st' ! 0)
         = [\<lparr>molecule_id = ''m1'', name = ''Mock'', formula = ''C2H6'',
             color = Some ''#ff0000'', molecule.safety = None, targets = None\<rparr>]
     \<and> liquid (beakers st' ! 0) = (13/25, 76/125, 4/5)"
proof -
  let ?C = "\<lambda>s::string. if s = ''#ff0000'' then (1::real, 0::real, 0::real) else (0, 0, 0)"
  let ?M = "\<lparr>molecule_id = ''m1'', name = ''Mock'', formula = ''C2H6'',
             color = Some ''#ff0000'', molecule.safety = None, targets = None\<rparr>"
  let ?S = "\<lparr>molecules = [?M], beakers = initThreeScene_beakers (2/5, 19/25, 1),
          sink = [], global_constAffinity = None\<rparr>"
  let ?E = "\<lparr>payload = ''m1'', clientX = 10, rect_left = 10, rect_width = 800\<rparr>"
  have g: "\<exists>st'. addMoleculeToBeaker ?C ?M 0 ?S = Inr st'
             \<and> contents (beakers st' ! nat 0) = contents (beakers ?S ! nat 0) @ [?M]
             \<and> liquid (beakers st' ! nat 0)
                 = lerp (liquid (beakers ?S ! nat 0)) (?C ''#ff0000'') 0.2"
    using addMoleculeToBeaker_blend [of 0 ?S ?M "''#ff0000''" ?C ?E]
    by (simp add: initThreeScene_beakers_eq)
  have "\<exists>st'. drop_listener ?C ?S ?E = Inr st'
             \<and> contents (beakers st' ! 0) = contents (beakers ?S ! 0) @ [?M]
             \<and> liquid (beakers st' ! 0)
                 = lerp (liquid (beakers ?S ! 0)) (?C ''#ff0000'') 0.2"
    using addMoleculeToBeaker_blend [of 0 ?S ?M "''#ff0000''" ?C ?E]
    by (simp add: initThreeScene_beakers_eq normalizedX_def)
  then show ?thesis
    using g by (simp add: initThreeScene_beakers_eq lerp_def)
qed

subsection \<open>Flows that abort\<close>

text \<open>
  C9. A drop whose transfer payload is empty, or names no molecule of the catalog, and a
  receptor prompt that is cancelled or left empty, end the flow silently: the handler
  returns without an exception and the whole state (catalog, beakers, everything emitted
  so far, the global object) is what it was.
\<close>

theorem silent_abort:
  "(payload ev = [] \<or> payload ev \<notin> molecule_id ` set (molecules st)
      \<longrightarrow> drop_listener Color st ev = Inr st)
   \<and> (answer = None \<or> answer = Some []
      \<longrightarrow> showReceptorDialog st rnd mol answer = Inr st)"
proof (intro conjI impI)
  assume "payload ev = [] \<or> payload ev \<notin> molecule_id ` set (molecules st)"
  then show "drop_listener Color st ev = Inr st"
    using find_molecule_None [of "payload ev" "molecules st"]
    by (auto simp: drop_listener_def Let_def)
next
  assume "answer = None \<or> answer = Some []"
  then show "showReceptorDialog st rnd mol answer = Inr st"
    by (auto simp: showReceptorDialog_def)
qed

text \<open>C9 at an empty payload, an unknown id, a cancelled prompt and an empty answer.\<close>

theorem silent_abort_witness:
  "drop_listener (\<lambda>s. (1, 0, 0))
     \<lparr>molecules = [\<lparr>molecule_id = ''m1'', name = ''Mock'', formula = ''C2H6'',
                     color = Some ''#ff0000'', molecule.safety = None, targets = None\<rparr>],
      beakers = initThreeScene_beakers (2/5, 19/25, 1), sink = [], global_constAffinity = None\<rparr>
     \<lparr>payload = '''', clientX = 10, rect_left = 10, rect_width = 800\<rparr>
   = Inr \<lparr>molecules = [\<lparr>molecule_id = ''m1'', name = ''Mock'', formula = ''C2H6'',
                     color = Some ''#ff0000'', molecule.safety = None, targets = None\<rparr>],
      beakers = initThreeScene_beakers (2/5, 19/25, 1), sink = [], global_constAffinity = None\<rparr>
   \<and> drop_listener (\<lambda>s. (1, 0, 0))
     \<lparr>molecules = [\<lparr>molecule_id = ''m1'', name = ''Mock'', formula = ''C2H6'',
                     color = Some ''#ff0000'', molecule.safety = None, targets = None\<rparr>],
      beakers = initThreeScene_beakers (2/5, 19/25, 1), sink = [], global_constAffinity = None\<rparr>
     \<lparr>payload = ''m2'', clientX = 10, rect_left = 10, rect_width = 800\<rparr>
   = Inr \<lparr>molecules = [\<lparr>molecule_id = ''m1'', name = ''Mock'', formula = ''C2H6'',
                     color = Some ''#ff0000'', molecule.safety = None, targets = None\<rparr>],
      beakers = initThreeScene_beakers (2/5, 19/25, 1), sink = [], global_constAffinity = None\<rparr>
   \<and> showReceptorDialog
     \<lparr>molecules = [\<lparr>molecule_id = ''m1'', name = ''Mock'', formula = ''C2H6'',
                     color = Some ''#ff0000'', molecule.safety = None, targets = None\<rparr>],
      beakers = initThreeScene_beakers (2/5, 19/25, 1), sink = [], global_constAffinity = None\<rparr>
     \<lparr>d0 = 1/2, d1 = 0, d2 = 0, d3 = 0, d4 = 0\<rparr>
     \<lparr>molecule_id = ''m1'', name = ''Mock'', formula = ''C2H6'',
                     color = Some ''#ff0000'', molecule.safety = None, targets = None\<rparr> None
   = Inr \<lparr>molecules = [\<lparr>molecule_id = ''m1'', name = ''Mock'', formula = ''C2H6'',
                     color = Some ''#ff0000'', molecule.safety = None, targets = None\<rparr>],
      beakers = initThreeScene_beakers (2/5, 19/25, 1), sink = [], global_constAffinity = None\<rparr>
   \<and> showReceptorDialog
     \<lparr>molecules = [\<lparr>molecule_id = ''m1'', name = ''Mock'', formula = ''C2H6'',
                     color = Some ''#ff0000'', molecule.safety = None, targets = None\<rparr>],
      beakers = initThreeScene_beakers (2/5, 19/25, 1), sink = [], global_constAffinity = None\<rparr>
     \<lparr>d0 = 1/2, d1 = 0, d2 = 0, d3 = 0, d4 = 0\<rparr>
     \<lparr>molecule_id = ''m1'', name = ''Mock'', formula = ''C2H6'',
                     color = Some ''#ff0000'', molecule.safety = None, targets = None\<rparr> (Some '''')
   = Inr \<lparr>molecules = [\<lparr>molecule_id = ''m1'', name = ''Mock'', formula = ''C2H6'',
                     color = Some ''#ff0000'', molecule.safety = None, targets = None\<rparr>],
      beakers = initThreeScene_beakers (2/5, 19/25, 1), sink = [], global_constAffinity = None\<rparr>"
proof -
  let ?C = "\<lambda>s::string. (1::real, 0::real, 0::real)"
  let ?M = "\<lparr>molecule_id = ''m1'', name = ''Mock'', formula = ''C2H6'',
             color = Some ''#ff0000'', molecule.safety = None, targets = None\<rparr>"
  let ?S = "\<lparr>molecules = [?M], beakers = initThreeScene_beakers (2/5, 19/25, 1),
          sink = [], global_constAffinity = None\<rparr>"
  let ?R = "\<lparr>d0 = 1/2, d1 = 0, d2 = 0, d3 = 0, d4 = 0\<rparr>"
  show ?thesis
    using silent_abort [of "\<lparr>payload = '''', clientX = 10, rect_left = 10, rect_width = 800\<rparr>"
                           ?S ?C None ?R ?M]
          silent_abort [of "\<lparr>payload = ''m2'', clientX = 10, rect_left = 10, rect_width = 800\<rparr>"
                           ?S ?C "Some ''''" ?R ?M]
    by simp
qed

subsection \<open>The simulated effect\<close>

text \<open>
  C2. The claim is that \<^verbatim>\<open>getSimulatedEffects\<close> never raises and has no side effect.
  Line 16 assigns to the undeclared identifier \<^verbatim>\<open>constAffinity\<close>. In the module, where
  the global object has no such property, every call raises ReferenceError, for every
  molecule, receptor name and draw; and were the property there, the call would overwrite
  it, which is a side effect on the global object.
\<close>

theorem getSimulatedEffects_raises:
  "getSimulatedEffects None rnd m r = Inl ReferenceError
   \<and> (\<exists>sim. getSimulatedEffects (Some g0) rnd m r
                = Inr (sim, Some (num_or (lookupAffinity m r) 0.05)))"
  by (simp add: getSimulatedEffects_unbound getSimulatedEffects_bound Let_def)

text \<open>
  C3, as stated, fails for a matching target of affinity 0: the target
  \<^verbatim>\<open>{receptor: "D2", affinity: 0}\<close> exists and matches, the optional chain yields its
  affinity 0, and \<^verbatim>\<open>0 || 0.05\<close> is the default 0.05.
\<close>

theorem zero_affinity_target_counterexample:
  "lookupAffinity
     \<lparr>molecule_id = ''m1'', name = ''Mock'', formula = ''C2H6'', color = Some ''#ff0000'',
      molecule.safety = None,
      targets = Some [\<lparr>target.receptor = ''D2'', affinity = 0\<rparr>]\<rparr> ''D2'' = Some 0
   \<and> num_or (lookupAffinity
     \<lparr>molecule_id = ''m1'', name = ''Mock'', formula = ''C2H6'', color = Some ''#ff0000'',
      molecule.safety = None,
      targets = Some [\<lparr>target.receptor = ''D2'', affinity = 0\<rparr>]\<rparr> ''D2'') 0.05 = 0.05"
  by (simp add: lookupAffinity_def num_or_def)

text \<open>
  C3, amended. The value that line 16 computes for a molecule \<open>m\<close> and a receptor name \<open>r\<close>
  is the affinity of the first target of \<open>m\<close> whose receptor name is exactly \<open>r\<close> when there
  is one and its affinity is not zero, and the default 0.05 when that affinity is zero,
  when \<open>m\<close> has no targets, or when no target has the receptor name \<open>r\<close>. Whenever the call
  returns, that value is what the identifier holds and what the activation is computed
  from.
\<close>

theorem affinity_used:
  "(targets m = Some (pre @ t # post) \<and> (\<forall>p \<in> set pre. target.receptor p \<noteq> r)
      \<and> target.receptor t = r
      \<longrightarrow> num_or (lookupAffinity m r) 0.05 = (if affinity t = 0 then 0.05 else affinity t))
   \<and> (targets m = None \<or> (\<exists>ts. targets m = Some ts \<and> r \<notin> target.receptor ` set ts)
      \<longrightarrow> num_or (lookupAffinity m r) 0.05 = 0.05)
   \<and> (getSimulatedEffects g rnd m r = Inr (sim, g')
      \<longrightarrow> g' = Some (num_or (lookupAffinity m r) 0.05)
          \<and> activation sim = min 1 (num_or (lookupAffinity m r) 0.05 * (0.8 + d0 rnd * 0.6)))"
proof (intro conjI impI)
  assume "targets m = Some (pre @ t # post) \<and> (\<forall>p \<in> set pre. target.receptor p \<noteq> r)
      \<and> target.receptor t = r"
  then have "lookupAffinity m r = Some (affinity t)"
    using lookupAffinity_first_match [of m pre t post r] by blast
  then show "num_or (lookupAffinity m r) 0.05 = (if affinity t = 0 then 0.05 else affinity t)"
    by (simp add: num_or_def)
next
  assume "targets m = None \<or> (\<exists>ts. targets m = Some ts \<and> r \<notin> target.receptor ` set ts)"
  then have "lookupAffinity m r = None" by (rule lookupAffinity_absent)
  then show "num_or (lookupAffinity m r) 0.05 = 0.05" by (simp add: num_or_def)
next
  assume r: "getSimulatedEffects g rnd m r = Inr (sim, g')"
  show "g' = Some (num_or (lookupAffinity m r) 0.05)"
    by (rule getSimulatedEffects_returns(2) [OF r])
  show "activation sim = min 1 (num_or (lookupAffinity m r) 0.05 * (0.8 + d0 rnd * 0.6))"
    by (rule getSimulatedEffects_returns(3) [OF r])
qed

text \<open>
  C3, amended, at a molecule with the targets 5-HT2A (0.3) and D2 (0.9): the name
  \<^verbatim>\<open>D2\<close> finds 0.9, the name \<^verbatim>\<open>d2\<close> finds nothing.
\<close>

theorem affinity_used_witness:
  "num_or (lookupAffinity
      \<lparr>molecule_id = ''m1'', name = ''Mock'', formula = ''C2H6'', color = Some ''#ff0000'',
       molecule.safety = None,
       targets = Some [\<lparr>target.receptor = ''5-HT2A'', affinity = 3/10\<rparr>,
                       \<lparr>target.receptor = ''D2'', affinity = 9/10\<rparr>]\<rparr> ''D2'') 0.05 = 9/10
   \<and> num_or (lookupAffinity
      \<lparr>molecule_id = ''m1'', name = ''Mock'', formula = ''C2H6'', color = Some ''#ff0000'',
       molecule.safety = None,
       targets = Some [\<lparr>target.receptor = ''5-HT2A'', affinity = 3/10\<rparr>,
                       \<lparr>target.receptor = ''D2'', affinity = 9/10\<rparr>]\<rparr> ''d2'') 0.05 = 1/20
   \<and> (\<exists>sim. getSimulatedEffects (Some 0) \<lparr>d0 = 1/3, d1 = 0, d2 = 0, d3 = 0, d4 = 0\<rparr>
      \<lparr>molecule_id = ''m1'', name = ''Mock'', formula = ''C2H6'', color = Some ''#ff0000'',
       molecule.safety = None,
       targets = Some [\<lparr>target.receptor = ''5-HT2A'', affinity = 3/10\<rparr>,
                       \<lparr>target.receptor = ''D2'', affinity = 9/10\<rparr>]\<rparr> ''D2''
        = Inr (sim, Some (9/10)) \<and> activation sim = 9/10)"
proof -
  let ?t1 = "\<lparr>target.receptor = ''5-HT2A'', affinity = 3/10\<rparr>"
  let ?t2 = "\<lparr>target.receptor = ''D2'', affinity = 9/10\<rparr>"
  let ?M = "\<lparr>molecule_id = ''m1'', name = ''Mock'', formula = ''C2H6'', color = Some ''#ff0000'',
       molecule.safety = None, targets = Some [?t1, ?t2]\<rparr>"
  let ?R = "\<lparr>d0 = 1/3, d1 = 0, d2 = 0, d3 = 0, d4 = 0\<rparr>"
  obtain sim g' where r: "getSimulatedEffects (Some 0) ?R ?M ''D2'' = Inr (sim, g')"
    by (simp add: getSimulatedEffects_bound Let_def)
  have a: "num_or (lookupAffinity ?M ''D2'') 0.05 = 9/10"
    using affinity_used [of ?M "[?t1]" ?t2 "[]" "''D2''" "Some 0" ?R sim g'] by simp
  have b: "num_or (lookupAffinity ?M ''d2'') 0.05 = 1/20"
    using affinity_used [of ?M "[]" ?t1 "[]" "''d2''" None ?R sim g'] by simp
  have c: "g' = Some (9/10) \<and> activation sim = 9/10"
    using affinity_used [of ?M "[?t1]" ?t2 "[]" "''D2''" "Some 0" ?R sim g'] r a by simp
  show ?thesis using a b c r by simp
qed

text \<open>
  C5, as stated, fails for a matched affinity \<open>a = 0\<close> and the draw \<open>r = 0.8 + (1/3) * 0.6 = 1\<close>:
  the claim gives the activation \<open>min(1, 0 * 1) = 0\<close>. In the module the call raises
  ReferenceError and returns no activation; where the identifier resolves, the zero
  affinity has been replaced by the default and the activation is 0.05.
\<close>

theorem zero_affinity_activation_counterexample:
  "getSimulatedEffects None \<lparr>d0 = 1/3, d1 = 0, d2 = 0, d3 = 0, d4 = 0\<rparr>
     \<lparr>molecule_id = ''m1'', name = ''Mock'', formula = ''C2H6'', color = Some ''#ff0000'',
      molecule.safety = None,
      targets = Some [\<lparr>target.receptor = ''D2'', affinity = 0\<rparr>]\<rparr> ''D2''
     = Inl ReferenceError
   \<and> getSimulatedEffects (Some 0) \<lparr>d0 = 1/3, d1 = 0, d2 = 0, d3 = 0, d4 = 0\<rparr>
     \<lparr>molecule_id = ''m1'', name = ''Mock'', formula = ''C2H6'', color = Some ''#ff0000'',
      molecule.safety = None,
      targets = Some [\<lparr>target.receptor = ''D2'', affinity = 0\<rparr>]\<rparr> ''D2''
     = Inr (\<lparr>activation = 1/20,
              brainwave = \<lparr>delta = 1/10, theta = 1/10, alpha = 1/5, beta = 3/20\<rparr>,
              mood = ''neutral'', safety = ''yellow'', receptor = ''D2''\<rparr>, Some (1/20))
   \<and> min 1 (0 * (0.8 + 1/3 * 0.6)) \<noteq> (1/20 :: real)"
  by (simp add: getSimulatedEffects_def lookupAffinity_def num_or_def str_or_def Let_def)

text \<open>
  C5, amended. For a molecule whose first matching target has affinity \<open>a\<close> in \<open>[0, 1]\<close>
  and a draw \<open>d0\<close> in \<open>[0, 1)\<close>, that is \<open>r = 0.8 + d0 * 0.6\<close> in \<open>[0.8, 1.4)\<close>, an activation
  that \<^verbatim>\<open>getSimulatedEffects\<close> returns equals \<open>min(1, a * r)\<close> when \<open>a > 0\<close> and
  \<open>min(1, 0.05 * r)\<close> when \<open>a = 0\<close>, and lies within \<open>[0, 1]\<close>.
\<close>

theorem activation_of_matched_affinity:
  assumes "lookupAffinity m r = Some a" and "0 \<le> a" and "a \<le> 1"
    and "0 \<le> d0 rnd" and "d0 rnd < 1"
    and "getSimulatedEffects g rnd m r = Inr (sim, g')"
  shows "activation sim = min 1 ((if a = 0 then 0.05 else a) * (0.8 + d0 rnd * 0.6))
         \<and> 0 \<le> activation sim \<and> activation sim \<le> 1"
proof -
  have u: "num_or (lookupAffinity m r) 0.05 = (if a = 0 then 0.05 else a)"
    using assms(1) by (simp add: num_or_def)
  have nn: "0 \<le> (if a = 0 then 0.05 else a)" using assms(2) by simp
  have act: "activation sim = min 1 ((if a = 0 then 0.05 else a) * (0.8 + d0 rnd * 0.6))"
    using getSimulatedEffects_returns(3) [OF assms(6)] u by simp
  show ?thesis
    using act activation_range [OF nn assms(4)] by simp
qed

text \<open>C5, amended, at the affinity 0.9 and the draw \<open>d0 = 1/2\<close>.\<close>

theorem activation_of_matched_affinity_witness:
  "\<exists>sim g'. getSimulatedEffects (Some 0) \<lparr>d0 = 1/2, d1 = 0, d2 = 0, d3 = 0, d4 = 0\<rparr>
      \<lparr>molecule_id = ''m1'', name = ''Mock'', formula = ''C2H6'', color = Some ''#ff0000'',
       molecule.safety = None,
       targets = Some [\<lparr>target.receptor = ''D2'', affinity = 9/10\<rparr>]\<rparr> ''D2'' = Inr (sim, g')
     \<and> activation sim = min 1 (9/10 * (0.8 + 1/2 * 0.6))
     \<and> 0 \<le> activation sim \<and> activation sim \<le> 1"
proof -
  let ?M = "\<lparr>molecule_id = ''m1'', name = ''Mock'', formula = ''C2H6'', color = Some ''#ff0000'',
       molecule.safety = None,
       targets = Some [\<lparr>target.receptor = ''D2'', affinity = 9/10\<rparr>]\<rparr>"
  let ?R = "\<lparr>d0 = 1/2, d1 = 0, d2 = 0, d3 = 0, d4 = 0\<rparr>"
  obtain sim g' where r: "getSimulatedEffects (Some 0) ?R ?M ''D2'' = Inr (sim, g')"
    by (simp add: getSimulatedEffects_bound Let_def)
  have l: "lookupAffinity ?M ''D2'' = Some (9/10)"
    by (simp add: lookupAffinity_def)
  have "activation sim = min 1 ((if (9/10::real) = 0 then 0.05 else 9/10) * (0.8 + d0 ?R * 0.6))
         \<and> 0 \<le> activation sim \<and> activation sim \<le> 1"
    by (rule activation_of_matched_affinity [OF l _ _ _ _ r]) simp_all
  then show ?thesis using r by simp
qed

text \<open>
  What a returned effect looks like for a receptor the molecule does not target: the
  default affinity, an activation of \<open>0.05 * r\<close> within \<open>[0, 0.07]\<close>, a neutral mood.
\<close>

lemma default_effect_if_returned:
  assumes "lookupAffinity m r = None" "0 \<le> d0 rnd" "d0 rnd < 1"
    and "getSimulatedEffects g rnd m r = Inr (sim, g')"
  shows "activation sim = 0.05 * (0.8 + d0 rnd * 0.6)"
    and "0 \<le> activation sim" and "activation sim \<le> 0.07" and "mood sim = ''neutral''"
proof -
  have a: "activation sim = min 1 (0.05 * (0.8 + d0 rnd * 0.6))"
    using getSimulatedEffects_returns(3) [OF assms(4)] assms(1) by (simp add: num_or_def)
  then show b: "activation sim = 0.05 * (0.8 + d0 rnd * 0.6)"
    using default_activation(1) [OF assms(2,3)] by simp
  show "0 \<le> activation sim" "activation sim \<le> 0.07"
    using b default_activation(2,3) [OF assms(2,3)] by simp_all
  then have "\<not> activation sim > 0.4" by simp
  then show "mood sim = ''neutral''"
    using getSimulatedEffects_returns(8) [OF assms(4)] by simp
qed

text \<open>
  C6. The claim is that a molecule with no targets gets the default affinity, an
  activation within \<open>[0, 0.07]\<close> and a neutral mood. In the module the call returns
  nothing for such a molecule: line 16 raises ReferenceError, whatever the receptor name
  and the draws.
\<close>

theorem no_targets_raises:
  "getSimulatedEffects None rnd (m\<lparr>targets := None\<rparr>) r = Inl ReferenceError"
  by (rule getSimulatedEffects_unbound)

text \<open>
  C7. The claim gives each brainwave component of the result as
  \<open>max(0, base + activation * scale * r_i)\<close>. Lines 19 to 24 are written so
  (\<open>getSimulatedEffects_returns\<close>), but in the module no call reaches them: no call
  returns a result at all.
\<close>

theorem brainwave_never_returned:
  "getSimulatedEffects None rnd m r \<noteq> Inr (sim, g')"
  by (simp add: getSimulatedEffects_unbound)

text \<open>
  In a returned effect every brainwave component is at least its base value, provided the
  affinity used and the draws are not negative.
\<close>

lemma brainwave_at_least_base_if_returned:
  assumes "0 \<le> num_or (lookupAffinity m r) 0.05"
    and "0 \<le> d0 rnd" "0 \<le> d1 rnd" "0 \<le> d2 rnd" "0 \<le> d3 rnd" "0 \<le> d4 rnd"
    and "getSimulatedEffects g rnd m r = Inr (sim, g')"
  shows "0.1 \<le> delta (brainwave sim)" and "0.1 \<le> theta (brainwave sim)"
    and "0.2 \<le> alpha (brainwave sim)" and "0.15 \<le> beta (brainwave sim)"
proof -
  have act: "0 \<le> activation sim"
    using getSimulatedEffects_returns(3) [OF assms(7)] activation_range(1) [OF assms(1,2)]
    by simp
  have q: "0 \<le> activation sim * u \<and> 0 \<le> u * activation sim" if "0 \<le> u" for u
    using act that by simp
  show "0.1 \<le> delta (brainwave sim)"
    using q [OF assms(3)]
    by (simp add: getSimulatedEffects_returns(4) [OF assms(7)] le_max_iff_disj)
  show "0.1 \<le> theta (brainwave sim)"
    using q [OF assms(4)]
    by (simp add: getSimulatedEffects_returns(5) [OF assms(7)] le_max_iff_disj)
  show "0.2 \<le> alpha (brainwave sim)"
    using q [OF assms(5)]
    by (simp add: getSimulatedEffects_returns(6) [OF assms(7)] le_max_iff_disj)
  show "0.15 \<le> beta (brainwave sim)"
    using q [OF assms(6)]
    by (simp add: getSimulatedEffects_returns(7) [OF assms(7)] le_max_iff_disj)
qed

text \<open>
  C10. The claim is that each brainwave component of a result is at least its base value.
  In the module there is no result: for a molecule with the target D2 of affinity 0.9 and
  draws of 1/2, the call for D2 raises ReferenceError at line 16.
\<close>

theorem brainwave_base_never_reached:
  "getSimulatedEffects None \<lparr>d0 = 1/2, d1 = 1/2, d2 = 1/2, d3 = 1/2, d4 = 1/2\<rparr>
     \<lparr>molecule_id = ''m1'', name = ''Mock'', formula = ''C2H6'', color = Some ''#ff0000'',
      molecule.safety = Some ''green'',
      targets = Some [\<lparr>target.receptor = ''D2'', affinity = 9/10\<rparr>]\<rparr> ''D2''
   = Inl ReferenceError"
  by (rule getSimulatedEffects_unbound)

end
